theory Spec2Isabelle
  imports Complex_Main "HOL-Library.Sublist" "HOL-Library.Log_Nat"
begin

section \<open>GreenPipeline: energy estimator and command-line pipeline\<close>

text \<open>
  A shallow embedding of \<^verbatim>\<open>core/estimator.py\<close> (class \<^verbatim>\<open>EnergyEstimator\<close>) and of
  \<^verbatim>\<open>greenpipeline/cli.py\<close> (class \<^verbatim>\<open>GreenPipelineCLI\<close>).

  Everything the program reads from its environment (the clock, the sampled utilisation,
  the outcome of the subprocess, the history file) is an explicit argument of the model;
  every exception of the source is a value \<open>Inl e\<close>.

  Numbers. A Python float is a binary64 number, and is modelled by the real number it
  denotes. The command-line pipeline rounds its figures to a few decimals, and there the
  last bit of a float decides which way a figure goes; so every arithmetic step of
  \<^verbatim>\<open>cli.py\<close> is followed by the rounding to binary64 that the machine performs (\<open>fl\<close>
  below). The estimator never rounds to decimals; its formulas are modelled over the
  reals, and the statements about it are of the kinds that the rounding of the single
  operations leaves alone: that a result exists, that two results are the same, that one
  is at most another.
\<close>

subsection \<open>Python primitives\<close>

datatype error =
  ZeroDivisionError
  | IndexError
  | JSONDecodeError
  | WorkloadError string

text \<open>Float division \<^verbatim>\<open>a / b\<close>: raises on a zero divisor.\<close>

definition truediv :: "real \<Rightarrow> real \<Rightarrow> error + real" where
  "truediv a b = (if b = 0 then Inl ZeroDivisionError else Inr (a / b))"

text \<open>The nearest integer, a tie going to the even neighbour.\<close>

definition round_half_even :: "real \<Rightarrow> int" where
  "round_half_even s =
     (let f = \<lfloor>s\<rfloor>; d = s - of_int f
      in if d < 1 / 2 then f
         else if 1 / 2 < d then f + 1
         else if even f then f else f + 1)"

text \<open>
  Rounding to binary64, to nearest with ties to even: a positive \<open>x\<close> with
  \<open>2\<^sup>e \<le> x < 2\<^sup>e\<^sup>+\<^sup>1\<close> is rounded to a multiple of \<open>2\<^sup>e\<^sup>-\<^sup>5\<^sup>2\<close>, and below \<open>2\<^sup>-\<^sup>1\<^sup>0\<^sup>2\<^sup>2\<close> to a
  multiple of \<open>2\<^sup>-\<^sup>1\<^sup>0\<^sup>7\<^sup>4\<close>. The upper end of the range (results of \<open>2\<^sup>1\<^sup>0\<^sup>2\<^sup>4\<close> and more,
  which the machine turns into an infinity) is not modelled: the floats of
  \<^verbatim>\<open>cli.py\<close> are durations of a subprocess in seconds and small multiples of them.
\<close>

definition expo :: "real \<Rightarrow> int" where
  "expo x = (if 1 \<le> x then bitlen \<lfloor>x\<rfloor> - 1 else - bitlen (\<lceil>1 / x\<rceil> - 1))"

definition pow2 :: "int \<Rightarrow> real" where
  "pow2 e = (if 0 \<le> e then 2 ^ nat e else 1 / 2 ^ nat (- e))"

definition fl :: "real \<Rightarrow> real" where
  "fl x =
     (if x = 0 then 0
      else let u = pow2 (max (expo \<bar>x\<bar>) (- 1022) - 52)
           in of_int (round_half_even (x / u)) * u)"

text \<open>
  \<^verbatim>\<open>round(x, n)\<close> of a float, for a non-negative number of digits: the float nearest to
  the multiple of \<open>10\<^sup>-\<^sup>n\<close> that is nearest to the exact value of \<open>x\<close>, a tie between two
  multiples going to the even one.
\<close>

definition py_round :: "real \<Rightarrow> nat \<Rightarrow> real" where
  "py_round x n = fl (of_int (round_half_even (x * 10 ^ n)) / 10 ^ n)"

text \<open>The slice \<^verbatim>\<open>xs[i:]\<close>; a negative \<open>i\<close> counts from the end, and is cut at the start.\<close>

definition slice_from :: "int \<Rightarrow> 'a list \<Rightarrow> 'a list" where
  "slice_from i xs =
     (if i < 0 then drop (nat (max 0 (int (length xs) + i))) xs else drop (nat i) xs)"

text \<open>\<^verbatim>\<open>str.lower\<close> on ASCII text.\<close>

definition lower_char :: "char \<Rightarrow> char" where
  "lower_char c =
     (let n = (of_char c :: nat) in if 65 \<le> n \<and> n \<le> 90 then char_of (n + 32) else c)"

definition lower :: "string \<Rightarrow> string" where
  "lower s = map lower_char s"

subsection \<open>\<^verbatim>\<open>core/estimator.py\<close>\<close>

record EnergyMetrics =
  duration_seconds :: real
  cpu_percent :: real
  memory_mb :: real
  energy_joules :: real
  carbon_grams :: real
  sci_score :: real

record EnergyEstimator =
  carbon_intensity :: real
  platform :: string
  tdp :: real

definition CPU_TDP :: "(string \<times> real) list" where
  "CPU_TDP = [(''x86_64'', 65), (''aarch64'', 15), (''arm64'', 15)]"

definition CPU_POWER_FACTOR :: real where
  "CPU_POWER_FACTOR = 6 / 10"

definition CPU_BASELINE :: real where
  "CPU_BASELINE = 4 / 10"

definition RAM_WATTS_PER_GB :: real where
  "RAM_WATTS_PER_GB = 375 / 1000"

text \<open>
  \<^verbatim>\<open>EnergyEstimator.__init__\<close>; \<open>machine\<close> is what \<^verbatim>\<open>platform.machine()\<close> returns.
\<close>

definition init_estimator :: "real \<Rightarrow> string \<Rightarrow> EnergyEstimator" where
  "init_estimator ci machine =
     (let p = lower machine
      in \<lparr>carbon_intensity = ci, platform = p,
          tdp = (case map_of CPU_TDP p of Some w \<Rightarrow> w | None \<Rightarrow> 65)\<rparr>)"

text \<open>
  The locals \<^verbatim>\<open>cpu_power\<close>, \<^verbatim>\<open>ram_power\<close> and \<^verbatim>\<open>total_power_watts\<close> of
  \<^verbatim>\<open>_calculate_energy\<close>, as functions of the arguments they are computed from. The one
  operation among them that can raise in Python is the division \<^verbatim>\<open>cpu_percent / 100.0\<close>.
\<close>

definition cpu_power :: "EnergyEstimator \<Rightarrow> real \<Rightarrow> error + real" where
  "cpu_power self cpu_pct =
     (case truediv cpu_pct 100 of
        Inl e \<Rightarrow> Inl e
      | Inr cpu_util \<Rightarrow> Inr (tdp self * (cpu_util * CPU_POWER_FACTOR + CPU_BASELINE)))"

definition ram_power :: "real \<Rightarrow> real" where
  "ram_power memory_gb = memory_gb * RAM_WATTS_PER_GB"

definition total_power_watts :: "EnergyEstimator \<Rightarrow> real \<Rightarrow> real \<Rightarrow> error + real" where
  "total_power_watts self cpu_pct memory_gb =
     (case cpu_power self cpu_pct of
        Inl e \<Rightarrow> Inl e
      | Inr watts \<Rightarrow> Inr (watts + ram_power memory_gb))"

definition calculate_energy ::
  "EnergyEstimator \<Rightarrow> real \<Rightarrow> real \<Rightarrow> real \<Rightarrow> error + EnergyMetrics" where
  "calculate_energy self duration cpu_pct memory_gb =
     (case total_power_watts self cpu_pct memory_gb of
        Inl e \<Rightarrow> Inl e
      | Inr watts \<Rightarrow>
          (let joules = watts * duration
           in case truediv joules 3600000 of
                Inl e \<Rightarrow> Inl e
              | Inr kwh \<Rightarrow>
                  (let carbon = kwh * carbon_intensity self
                   in Inr \<lparr>duration_seconds = duration,
                            cpu_percent = cpu_pct,
                            memory_mb = memory_gb * 1024,
                            energy_joules = joules,
                            carbon_grams = carbon,
                            sci_score = carbon\<rparr>)))"

definition estimate_from_metrics ::
  "EnergyEstimator \<Rightarrow> real \<Rightarrow> real \<Rightarrow> real \<Rightarrow> error + EnergyMetrics" where
  "estimate_from_metrics self duration cpu_pct mem_mb =
     (case truediv mem_mb 1024 of
        Inl e \<Rightarrow> Inl e
      | Inr memory_gb \<Rightarrow> calculate_energy self duration cpu_pct memory_gb)"

text \<open>
  The averaging step of \<^verbatim>\<open>measure_execution\<close>:
  \<^verbatim>\<open>sum(samples) / len(samples) if samples else 0\<close>.
\<close>

definition average :: "real list \<Rightarrow> error + real" where
  "average samples =
     (if samples \<noteq> [] then truediv (sum_list samples) (of_nat (length samples)) else Inr 0)"

text \<open>
  \<^verbatim>\<open>measure_execution\<close>. The sampling thread and the clock are the environment: \<open>outcome\<close>
  is what the measured function did (it returned a value, or raised), \<open>duration\<close> is the
  elapsed time read after it, and \<open>cpu_samples\<close>, \<open>memory_samples\<close> are the two buffers as
  they are read once the thread has been joined. An exception of the measured function
  leaves through the \<^verbatim>\<open>finally\<close> block, and no metrics are computed.
\<close>

definition measure_execution ::
  "EnergyEstimator \<Rightarrow> error + 'r \<Rightarrow> real \<Rightarrow> real list \<Rightarrow> real list \<Rightarrow> error + ('r \<times> EnergyMetrics)" where
  "measure_execution self outcome duration cpu_samples memory_samples =
     (case outcome of
        Inl e \<Rightarrow> Inl e
      | Inr result \<Rightarrow>
          (case average cpu_samples of
             Inl e \<Rightarrow> Inl e
           | Inr avg_cpu \<Rightarrow>
               (case average memory_samples of
                  Inl e \<Rightarrow> Inl e
                | Inr avg_memory_gb \<Rightarrow>
                    (case calculate_energy self duration avg_cpu avg_memory_gb of
                       Inl e \<Rightarrow> Inl e
                     | Inr metrics \<Rightarrow> Inr (result, metrics)))))"

subsection \<open>\<^verbatim>\<open>greenpipeline/cli.py\<close>\<close>

text \<open>The nested mapping \<^verbatim>\<open>result_data\<close> built by \<^verbatim>\<open>run_command\<close>, key by key.\<close>

record metrics =
  cpu_percent :: real
  memory_mb :: real
  energy_joules :: real
  energy_kwh :: real
  carbon_grams :: real
  carbon_intensity :: real

record equivalents =
  smartphone_charges :: real
  km_driven :: real

record result_data =
  timestamp :: string
  command :: string
  location :: string
  success :: bool
  duration_seconds :: real
  metrics :: metrics
  equivalents :: equivalents

text \<open>
  What \<^verbatim>\<open>subprocess.run\<close> did: it returned with a return code and the two captured
  streams, or it raised an exception, of which \<^verbatim>\<open>str(e)\<close> is kept.
\<close>

datatype execution =
  Completed int string string
  | Raised string

text \<open>
  What one call of \<^verbatim>\<open>run_command\<close> reads from its environment: the subprocess, the
  elapsed time (the float \<^verbatim>\<open>time.time() - start_time\<close>) and
  \<^verbatim>\<open>datetime.now().isoformat()\<close>.
\<close>

record observation =
  execution :: execution
  elapsed :: real
  now :: string

text \<open>
  The history file \<^verbatim>\<open>~/.greenpipeline/history.json\<close>: it does not exist, or it holds a
  list of entries, or it holds something that \<^verbatim>\<open>json.load\<close> does not turn into a list.
  The entries are whatever was saved (\<^verbatim>\<open>_save_to_history\<close> does not look into them),
  and writing a list and loading it again is taken to give the same list.
\<close>

datatype 'a history_file =
  Missing
  | Stored "'a list"
  | Corrupt

text \<open>
  The log held by the file; no file is the empty log, as for \<^verbatim>\<open>show_history\<close>. An
  unreadable file holds no log: the statements below do not speak of its entries.
\<close>

definition entries :: "'a history_file \<Rightarrow> 'a list" where
  "entries file = (case file of Stored history \<Rightarrow> history | _ \<Rightarrow> [])"

text \<open>\<^verbatim>\<open>_save_to_history\<close>: load when the file exists, append, keep the last 100, write.\<close>

definition save_to_history :: "'a history_file \<Rightarrow> 'a \<Rightarrow> error + 'a history_file" where
  "save_to_history file data =
     (case (case file of
              Missing \<Rightarrow> Inr []
            | Stored stored \<Rightarrow> Inr stored
            | Corrupt \<Rightarrow> Inl JSONDecodeError) of
        Inl e \<Rightarrow> Inl e
      | Inr history \<Rightarrow> Inr (Stored (slice_from (- 100) (history @ [data]))))"

text \<open>A sequence of appends; the first exception ends it.\<close>

fun save_all :: "'a history_file \<Rightarrow> 'a list \<Rightarrow> error + 'a history_file" where
  "save_all file [] = Inr file"
| "save_all file (d # ds) =
     (case save_to_history file d of Inl e \<Rightarrow> Inl e | Inr file' \<Rightarrow> save_all file' ds)"

text \<open>The intensity chosen at the start of \<^verbatim>\<open>run_command\<close>.\<close>

definition intensity_for :: "string \<Rightarrow> real" where
  "intensity_for loc = (if loc = ''DE'' then 420 else if loc = ''CO'' then 165 else 389)"

text \<open>
  \<^verbatim>\<open>run_command\<close>. The result is the returned \<^verbatim>\<open>result_data\<close>, the captured
  \<^verbatim>\<open>output\<close> that is handed to \<^verbatim>\<open>_print_results\<close> (which only prints), and the history
  file after the call. The three figures \<^verbatim>\<open>energy_joules\<close>, \<^verbatim>\<open>energy_kwh\<close> and
  \<^verbatim>\<open>carbon_grams\<close> are computed in floats one from the other, and each is rounded to
  decimals only where it is put into the record.
\<close>

definition run_command ::
  "string \<Rightarrow> string \<Rightarrow> bool \<Rightarrow> result_data history_file \<Rightarrow> observation
     \<Rightarrow> error + (result_data \<times> string \<times> result_data history_file)" where
  "run_command cmd loc save_history file obs =
     (let ci = intensity_for loc;
          (ok, output) =
            (case execution obs of
               Completed returncode out err \<Rightarrow>
                 (returncode = 0, if returncode = 0 then out else err)
             | Raised msg \<Rightarrow> (False, msg));
          duration = elapsed obs;
          joules = fl (duration * 25);
          kwh = fl (joules / 3600000);
          carbon = fl (kwh * ci);
          data = \<lparr>timestamp = now obs,
                  command = cmd,
                  location = loc,
                  success = ok,
                  duration_seconds = py_round duration 2,
                  metrics = \<lparr>cpu_percent = 45,
                             memory_mb = 512,
                             energy_joules = py_round joules 2,
                             energy_kwh = py_round kwh 6,
                             carbon_grams = py_round carbon 4,
                             carbon_intensity = ci\<rparr>,
                  equivalents =
                    \<lparr>smartphone_charges =
                       py_round (fl (fl (carbon * 1000) / fl (62 / 1000))) 1,
                     km_driven = py_round (fl (carbon / 192)) 3\<rparr>\<rparr>
      in if save_history
         then (case save_to_history file data of
                 Inl e \<Rightarrow> Inl e
               | Inr file' \<Rightarrow> Inr (data, output, file'))
         else Inr (data, output, file))"

text \<open>
  \<^verbatim>\<open>compare_locations\<close>. The loop over the locations runs the command once per entry
  without saving; the \<open>k\<close>-th run reads \<open>world k\<close>.
\<close>

definition locations :: "(string \<times> string) list" where
  "locations =
     [(''Colombia'', ''CO''), (''Alemania'', ''DE''), (''California'', ''US-CA''),
      (''Francia'', ''FR'')]"

fun run_each ::
  "string \<Rightarrow> result_data history_file \<Rightarrow> (nat \<Rightarrow> observation) \<Rightarrow> nat
     \<Rightarrow> (string \<times> string) list \<Rightarrow> error + (string \<times> result_data) list" where
  "run_each cmd file world k [] = Inr []"
| "run_each cmd file world k ((name, code) # rest) =
     (case run_command cmd code False file (world k) of
        Inl e \<Rightarrow> Inl e
      | Inr (result, output, file') \<Rightarrow>
          (case run_each cmd file' world (Suc k) rest of
             Inl e \<Rightarrow> Inl e
           | Inr results \<Rightarrow> Inr ((name, result) # results)))"

text \<open>
  One printed line of the comparison: name, carbon, whether the arrow points up, delta.
  The source prints line by line; every line divides by the same baseline, so either the
  first line raises or all lines are printed, and the result is the exception or the
  whole list.
\<close>

record comparison_line =
  line_name :: string
  line_carbon :: real
  line_rising :: bool
  diff_percent :: real

fun print_lines :: "real \<Rightarrow> (string \<times> result_data) list \<Rightarrow> error + comparison_line list" where
  "print_lines baseline [] = Inr []"
| "print_lines baseline ((name, result) # rest) =
     (let carbon = metrics.carbon_grams (metrics result)
      in case truediv (fl (carbon - baseline)) baseline of
           Inl e \<Rightarrow> Inl e
         | Inr q \<Rightarrow>
             (let diff = fl (fl q * 100)
              in case print_lines baseline rest of
                   Inl e \<Rightarrow> Inl e
                 | Inr lines \<Rightarrow>
                     Inr (\<lparr>line_name = name, line_carbon = carbon,
                           line_rising = (0 < diff), diff_percent = diff\<rparr> # lines)))"

definition compare_over ::
  "(string \<times> string) list \<Rightarrow> string \<Rightarrow> result_data history_file \<Rightarrow> (nat \<Rightarrow> observation)
     \<Rightarrow> error + comparison_line list" where
  "compare_over locs cmd file world =
     (case run_each cmd file world 0 locs of
        Inl e \<Rightarrow> Inl e
      | Inr results \<Rightarrow>
          (case results of
             [] \<Rightarrow> Inl IndexError
           | (name, first) # rest \<Rightarrow>
               print_lines (metrics.carbon_grams (metrics first)) results))"

definition compare_locations ::
  "string \<Rightarrow> result_data history_file \<Rightarrow> (nat \<Rightarrow> observation)
     \<Rightarrow> error + comparison_line list" where
  "compare_locations cmd file world = compare_over locations cmd file world"

subsection \<open>Concrete runs\<close>

text \<open>
  Inputs at which the theorems below are evaluated: a successful run of one second, the
  record it produces, two runs that fail after two seconds and differ only in what they
  wrote to standard error, the record both produce, a run of three seconds whose
  subprocess could not be started, the record it produces, and a command that finishes
  within ten milliseconds under every location. A decimal figure of a record, such as
  \<open>0.0087\<close>, is the float nearest to it, \<open>fl (87 / 10000)\<close>.
\<close>

definition example_run :: observation where
  "example_run =
     \<lparr>execution = Completed 0 ''ok'' '''', elapsed = 1, now = ''2024-01-01T00:00:00''\<rparr>"

definition example_data :: result_data where
  "example_data =
     \<lparr>timestamp = ''2024-01-01T00:00:00'', command = ''true'', location = ''GLOBAL'',
      success = True, duration_seconds = 1,
      metrics = \<lparr>cpu_percent = 45, memory_mb = 512, energy_joules = 25,
                 energy_kwh = fl (7 / 1000000), carbon_grams = fl (27 / 10000),
                 carbon_intensity = 389\<rparr>,
      equivalents = \<lparr>smartphone_charges = fl (436 / 10), km_driven = 0\<rparr>\<rparr>"

definition boom_run :: observation where
  "boom_run =
     \<lparr>execution = Completed 2 '''' ''boom'', elapsed = 2, now = ''2024-01-01T00:00:00''\<rparr>"

definition bang_run :: observation where
  "bang_run =
     \<lparr>execution = Completed 2 '''' ''bang'', elapsed = 2, now = ''2024-01-01T00:00:00''\<rparr>"

definition failed_data :: result_data where
  "failed_data =
     \<lparr>timestamp = ''2024-01-01T00:00:00'', command = ''make'', location = ''CO'',
      success = False, duration_seconds = 2,
      metrics = \<lparr>cpu_percent = 45, memory_mb = 512, energy_joules = 50,
                 energy_kwh = fl (14 / 1000000), carbon_grams = fl (23 / 10000),
                 carbon_intensity = 165\<rparr>,
      equivalents = \<lparr>smartphone_charges = 37, km_driven = 0\<rparr>\<rparr>"

definition failing_run :: observation where
  "failing_run =
     \<lparr>execution = Raised ''fork failed'', elapsed = 3, now = ''2024-01-01T00:00:00''\<rparr>"

definition unstarted_data :: result_data where
  "unstarted_data =
     \<lparr>timestamp = ''2024-01-01T00:00:00'', command = ''make'', location = ''DE'',
      success = False, duration_seconds = 3,
      metrics = \<lparr>cpu_percent = 45, memory_mb = 512, energy_joules = 75,
                 energy_kwh = fl (21 / 1000000), carbon_grams = fl (87 / 10000),
                 carbon_intensity = 420\<rparr>,
      equivalents = \<lparr>smartphone_charges = fl (1411 / 10), km_driven = 0\<rparr>\<rparr>"

definition quick_run :: "nat \<Rightarrow> observation" where
  "quick_run k =
     \<lparr>execution = Completed 0 '''' '''', elapsed = fl (1 / 100),
      now = ''2024-01-01T00:00:00''\<rparr>"

section \<open>Auxiliary facts\<close>

subsection \<open>Evaluating floats\<close>

text \<open>
  The rules that compute \<open>fl\<close> and \<open>py_round\<close> at a number given in digits; the length in
  bits is unfolded on numerals only.
\<close>

lemma bitlen_numeral: "bitlen (numeral k) = bitlen (numeral k div 2) + 1"
  by (subst compute_bitlen) simp

lemma bitlen_one: "bitlen 1 = 1"
  by (subst compute_bitlen) simp

lemmas float_eval =
  fl_def expo_def pow2_def round_half_even_def py_round_def bitlen_numeral bitlen_one Let_def

lemma fl_zero: "fl 0 = 0"
  by (simp add: fl_def)

subsection \<open>Slicing\<close>

lemma slice_from_100: "slice_from (- 100) xs = drop (length xs - 100) xs"
  by (simp add: slice_from_def nat_diff_distrib' max_def)

lemma slice_slice_append:
  "slice_from (- 100) (slice_from (- 100) xs @ ys) = slice_from (- 100) (xs @ ys)"
proof (cases "length xs \<le> 100")
  case True
  then show ?thesis by (simp add: slice_from_100)
next
  case False
  then have "length xs + length ys - (length xs - 100 + 100) + (length xs - 100)
      = length xs + length ys - 100"
    by arith
  then show ?thesis by (simp add: slice_from_100)
qed

subsection \<open>The history file\<close>

lemma save_to_history_ok:
  "file \<noteq> Corrupt \<Longrightarrow>
   save_to_history file d = Inr (Stored (slice_from (- 100) (entries file @ [d])))"
  by (cases "file") (simp_all add: save_to_history_def entries_def)

lemma save_to_history_corrupt: "save_to_history Corrupt d = Inl JSONDecodeError"
  by (simp add: save_to_history_def)

lemma save_all_stored:
  "save_all (Stored h) ds = Inr (Stored (if ds = [] then h else slice_from (- 100) (h @ ds)))"
proof (induction ds arbitrary: h)
  case Nil
  show ?case by simp
next
  case (Cons d ds)
  have "save_to_history (Stored h) d = Inr (Stored (slice_from (- 100) (h @ [d])))"
    by (simp add: save_to_history_ok entries_def)
  then show ?case
    using slice_slice_append [of "h @ [d]" ds] by (simp add: Cons.IH)
qed

lemma save_all_missing:
  "save_all Missing ds = Inr (if ds = [] then Missing else Stored (slice_from (- 100) ds))"
proof (cases ds)
  case Nil
  then show ?thesis by simp
next
  case (Cons d ds')
  have "save_to_history Missing d = Inr (Stored (slice_from (- 100) [d]))"
    by (simp add: save_to_history_ok entries_def)
  then show ?thesis
    using slice_slice_append [of "[d]" ds'] by (simp add: Cons save_all_stored)
qed

subsection \<open>The estimator\<close>

text \<open>The estimator has no failing step: its divisions are by 100, 3600000 and 1024.\<close>

lemma tdp_init: "tdp (init_estimator ci machine) = 65 \<or> tdp (init_estimator ci machine) = 15"
  by (simp add: init_estimator_def CPU_TDP_def Let_def)

lemma total_power_watts_value:
  "total_power_watts self c m
     = Inr (tdp self * (c / 100 * CPU_POWER_FACTOR + CPU_BASELINE) + m * RAM_WATTS_PER_GB)"
  by (simp add: total_power_watts_def cpu_power_def ram_power_def truediv_def)

lemma calculate_energy_value:
  "calculate_energy self d c m
     = Inr \<lparr>EnergyMetrics.duration_seconds = d, EnergyMetrics.cpu_percent = c,
            EnergyMetrics.memory_mb = m * 1024,
            EnergyMetrics.energy_joules =
              (tdp self * (c / 100 * CPU_POWER_FACTOR + CPU_BASELINE) + m * RAM_WATTS_PER_GB) * d,
            EnergyMetrics.carbon_grams =
              (tdp self * (c / 100 * CPU_POWER_FACTOR + CPU_BASELINE) + m * RAM_WATTS_PER_GB) * d
                / 3600000 * EnergyEstimator.carbon_intensity self,
            sci_score =
              (tdp self * (c / 100 * CPU_POWER_FACTOR + CPU_BASELINE) + m * RAM_WATTS_PER_GB) * d
                / 3600000 * EnergyEstimator.carbon_intensity self\<rparr>"
  by (simp add: calculate_energy_def total_power_watts_value truediv_def Let_def)

subsection \<open>What \<^verbatim>\<open>run_command\<close> returns\<close>

lemma run_command_data:
  "run_command cmd loc sv file obs = Inr (data, out, file') \<Longrightarrow>
   data = \<lparr>timestamp = now obs, command = cmd, location = loc,
           success = (case execution obs of Completed rc so se \<Rightarrow> rc = 0 | Raised msg \<Rightarrow> False),
           duration_seconds = py_round (elapsed obs) 2,
           metrics =
             \<lparr>cpu_percent = 45, memory_mb = 512,
              energy_joules = py_round (fl (elapsed obs * 25)) 2,
              energy_kwh = py_round (fl (fl (elapsed obs * 25) / 3600000)) 6,
              carbon_grams =
                py_round (fl (fl (fl (elapsed obs * 25) / 3600000) * intensity_for loc)) 4,
              carbon_intensity = intensity_for loc\<rparr>,
           equivalents =
             \<lparr>smartphone_charges =
                py_round
                  (fl (fl (fl (fl (fl (elapsed obs * 25) / 3600000) * intensity_for loc) * 1000)
                       / fl (62 / 1000))) 1,
              km_driven =
                py_round (fl (fl (fl (fl (elapsed obs * 25) / 3600000) * intensity_for loc) / 192))
                  3\<rparr>\<rparr>"
  by (cases "execution obs")
     (auto simp: run_command_def Let_def split: if_splits sum.splits)

lemma run_command_output:
  "run_command cmd loc sv file obs = Inr (data, out, file') \<Longrightarrow>
   out = (case execution obs of
            Completed rc so se \<Rightarrow> if rc = 0 then so else se
          | Raised msg \<Rightarrow> msg)"
  by (cases "execution obs")
     (auto simp: run_command_def Let_def split: if_splits sum.splits)

lemma run_command_file:
  "run_command cmd loc sv file obs = Inr (data, out, file') \<Longrightarrow>
   file' = (if sv then Stored (slice_from (- 100) (entries file @ [data])) else file)"
  by (cases "execution obs"; cases "file")
     (auto simp: run_command_def Let_def save_to_history_def entries_def
           split: if_splits sum.splits)

lemma run_command_returns:
  "(sv \<longrightarrow> file \<noteq> Corrupt) \<Longrightarrow>
   \<exists>data out file'. run_command cmd loc sv file obs = Inr (data, out, file')"
  by (cases "execution obs"; cases "file")
     (auto simp: run_command_def Let_def save_to_history_def split: if_splits sum.splits)

lemma run_command_corrupt: "run_command cmd loc True Corrupt obs = Inl JSONDecodeError"
  by (simp add: run_command_def Let_def save_to_history_def split: prod.splits)

subsection \<open>The concrete runs, evaluated\<close>

lemma example_run_result:
  "run_command ''true'' ''GLOBAL'' True Missing example_run
     = Inr (example_data, ''ok'', Stored [example_data])"
  by (simp add: run_command_def example_run_def example_data_def intensity_for_def
      save_to_history_def slice_from_def Let_def)
     (simp add: float_eval)

lemma record_of_example_run:
  "\<lparr>timestamp = now example_run, command = ''true'', location = ''GLOBAL'', success = True,
     duration_seconds = py_round (elapsed example_run) 2,
     metrics =
       \<lparr>cpu_percent = 45, memory_mb = 512,
        energy_joules = py_round (fl (elapsed example_run * 25)) 2,
        energy_kwh = py_round (fl (fl (elapsed example_run * 25) / 3600000)) 6,
        carbon_grams = py_round (fl (fl (fl (elapsed example_run * 25) / 3600000) * 389)) 4,
        carbon_intensity = 389\<rparr>,
     equivalents =
       \<lparr>smartphone_charges =
          py_round
            (fl (fl (fl (fl (fl (elapsed example_run * 25) / 3600000) * 389) * 1000)
                 / fl (62 / 1000))) 1,
        km_driven =
          py_round (fl (fl (fl (fl (elapsed example_run * 25) / 3600000) * 389) / 192)) 3\<rparr>\<rparr>
   = example_data"
  by (simp add: example_run_def example_data_def) (simp add: float_eval)

lemma record_of_failing_run:
  "\<lparr>timestamp = now failing_run, command = ''make'', location = ''DE'', success = False,
     duration_seconds = py_round (elapsed failing_run) 2,
     metrics =
       \<lparr>cpu_percent = 45, memory_mb = 512,
        energy_joules = py_round (fl (elapsed failing_run * 25)) 2,
        energy_kwh = py_round (fl (fl (elapsed failing_run * 25) / 3600000)) 6,
        carbon_grams =
          py_round (fl (fl (fl (elapsed failing_run * 25) / 3600000) * intensity_for ''DE'')) 4,
        carbon_intensity = intensity_for ''DE''\<rparr>,
     equivalents =
       \<lparr>smartphone_charges =
          py_round
            (fl (fl (fl (fl (fl (elapsed failing_run * 25) / 3600000) * intensity_for ''DE'')
                     * 1000)
                 / fl (62 / 1000))) 1,
        km_driven =
          py_round
            (fl (fl (fl (fl (elapsed failing_run * 25) / 3600000) * intensity_for ''DE'') / 192))
            3\<rparr>\<rparr>
   = unstarted_data"
  by (simp add: failing_run_def unstarted_data_def intensity_for_def) (simp add: float_eval)

subsection \<open>The comparison, when it prints\<close>

lemma run_each_names:
  "run_each cmd hf world k locs = Inr results \<Longrightarrow> map fst results = map fst locs"
proof (induction locs arbitrary: hf k results)
  case Nil
  then show ?case by simp
next
  case (Cons loc locs)
  obtain name code where l: "loc = (name, code)" by (cases loc)
  from Cons.prems l obtain result out hf' rest where
    "run_command cmd code False hf (world k) = Inr (result, out, hf')"
    "run_each cmd hf' world (Suc k) locs = Inr rest"
    "results = (name, result) # rest"
    by (auto split: sum.splits prod.splits)
  then show ?case
    using Cons.IH [of hf' "Suc k" rest] l by simp
qed

lemma print_lines_names:
  "print_lines baseline results = Inr lines \<Longrightarrow> map line_name lines = map fst results"
proof (induction results arbitrary: lines)
  case Nil
  then show ?case by simp
next
  case (Cons r results)
  obtain name result where p: "r = (name, result)" by (cases r)
  from Cons.prems p obtain l rest where
    "print_lines baseline results = Inr rest" "lines = l # rest" "line_name l = name"
    by (auto simp: Let_def split: sum.splits)
  then show ?case
    using Cons.IH [of rest] p by simp
qed

text \<open>
  Whenever the comparison gets to print, its lines follow the order of the location list
  and the first line shows a delta of 0.
\<close>

lemma compare_over_printed:
  "compare_over locs cmd file world = Inr lines \<Longrightarrow>
   map line_name lines = map fst locs \<and> lines \<noteq> [] \<and> diff_percent (hd lines) = 0"
proof -
  assume c: "compare_over locs cmd file world = Inr lines"
  then obtain results where e: "run_each cmd file world 0 locs = Inr results"
    by (auto simp: compare_over_def split: sum.splits)
  with c obtain name first rest where
    rs: "results = (name, first) # rest"
    and p: "print_lines (metrics.carbon_grams (metrics first)) results = Inr lines"
    by (auto simp: compare_over_def split: sum.splits list.splits)
  have n: "map line_name lines = map fst locs"
    using print_lines_names [OF p] run_each_names [OF e] by simp
  from p rs obtain l ls where "lines = l # ls" "diff_percent l = 0"
    by (auto simp: Let_def truediv_def fl_zero split: sum.splits if_splits)
  with n show ?thesis by simp
qed

section \<open>The claims\<close>

subsection \<open>C1: carbon is energy times intensity\<close>

text \<open>
  C1, as stated: for every valid input the \<open>carbon_grams\<close> of a measurement equals
  \<open>energy_kwh * carbon_intensity\<close> exactly, with \<open>energy_kwh = energy_joules / 3600000\<close>,
  and the identity also holds for the values recorded in a persisted Measurement.

  The last part fails. A successful run of one second under the location \<open>GLOBAL\<close> is
  saved with \<open>energy_joules = 25\<close>, \<open>energy_kwh = 0.000007\<close>, \<open>carbon_intensity = 389\<close> and
  \<open>carbon_grams = 0.0027\<close>. The product of the recorded \<open>energy_kwh\<close> and intensity is
  \<open>0.002723\<close>, whether it is taken exactly or in floats, and the recorded \<open>energy_joules\<close>
  divided by 3600000 is not the recorded \<open>energy_kwh\<close>: each figure of the record is
  rounded on its own.
\<close>

theorem persisted_identity_fails:
  "run_command ''true'' ''GLOBAL'' True Missing example_run
     = Inr (example_data, ''ok'', Stored [example_data])
   \<and> metrics.carbon_grams (metrics example_data)
       \<noteq> fl (metrics.energy_kwh (metrics example_data)
               * metrics.carbon_intensity (metrics example_data))
   \<and> metrics.carbon_grams (metrics example_data)
       \<noteq> metrics.energy_kwh (metrics example_data)
           * metrics.carbon_intensity (metrics example_data)
   \<and> metrics.energy_kwh (metrics example_data)
       \<noteq> fl (metrics.energy_joules (metrics example_data) / 3600000)"
proof -
  have "metrics.carbon_grams (metrics example_data)
       \<noteq> fl (metrics.energy_kwh (metrics example_data)
               * metrics.carbon_intensity (metrics example_data))"
    by (simp add: example_data_def) (simp add: float_eval)
  moreover have "metrics.carbon_grams (metrics example_data)
       \<noteq> metrics.energy_kwh (metrics example_data)
           * metrics.carbon_intensity (metrics example_data)"
    by (simp add: example_data_def) (simp add: float_eval)
  moreover have "metrics.energy_kwh (metrics example_data)
       \<noteq> fl (metrics.energy_joules (metrics example_data) / 3600000)"
    by (simp add: example_data_def) (simp add: float_eval)
  ultimately show ?thesis
    using example_run_result by simp
qed

text \<open>
  C1, amended: for every valid input, the \<open>carbon_grams\<close> that the pipeline computes
  equals \<open>energy_kwh * carbon_intensity\<close> exactly, where
  \<open>energy_kwh = energy_joules / 3600000\<close>, with no rounding to decimals between the
  stages: this holds for the metrics of the estimator, and for the unrounded figures that
  \<open>run_command\<close> computes. The values recorded in a persisted Measurement are these
  figures rounded one by one for display (joules to 2 decimals, kWh to 6, carbon to 4,
  each from its unrounded figure); the identity is not kept among the recorded values.
\<close>

theorem carbon_identity:
  "(\<exists>em. calculate_energy self d c m = Inr em
      \<and> EnergyMetrics.carbon_grams em
          = EnergyMetrics.energy_joules em / 3600000 * EnergyEstimator.carbon_intensity self
      \<and> sci_score em = EnergyMetrics.carbon_grams em)
   \<and> (run_command cmd loc sv file obs = Inr (data, out, file') \<longrightarrow>
        (\<exists>joules kwh carbon.
            joules = fl (elapsed obs * 25)
          \<and> kwh = fl (joules / 3600000)
          \<and> carbon = fl (kwh * metrics.carbon_intensity (metrics data))
          \<and> metrics.energy_joules (metrics data) = py_round joules 2
          \<and> metrics.energy_kwh (metrics data) = py_round kwh 6
          \<and> metrics.carbon_grams (metrics data) = py_round carbon 4))"
proof -
  have est: "\<exists>em. calculate_energy self d c m = Inr em
      \<and> EnergyMetrics.carbon_grams em
          = EnergyMetrics.energy_joules em / 3600000 * EnergyEstimator.carbon_intensity self
      \<and> sci_score em = EnergyMetrics.carbon_grams em"
    by (simp add: calculate_energy_value)
  have cli: "\<exists>joules kwh carbon.
            joules = fl (elapsed obs * 25)
          \<and> kwh = fl (joules / 3600000)
          \<and> carbon = fl (kwh * metrics.carbon_intensity (metrics data))
          \<and> metrics.energy_joules (metrics data) = py_round joules 2
          \<and> metrics.energy_kwh (metrics data) = py_round kwh 6
          \<and> metrics.carbon_grams (metrics data) = py_round carbon 4"
    if r: "run_command cmd loc sv file obs = Inr (data, out, file')"
    using run_command_data [OF r] by simp
  from est cli show ?thesis by blast
qed

theorem carbon_identity_witness:
  "run_command ''true'' ''GLOBAL'' True Missing example_run
     = Inr (example_data, ''ok'', Stored [example_data])
   \<and> (\<exists>joules kwh carbon.
          joules = fl (elapsed example_run * 25)
        \<and> kwh = fl (joules / 3600000)
        \<and> carbon = fl (kwh * metrics.carbon_intensity (metrics example_data))
        \<and> metrics.energy_joules (metrics example_data) = py_round joules 2
        \<and> metrics.energy_kwh (metrics example_data) = py_round kwh 6
        \<and> metrics.carbon_grams (metrics example_data) = py_round carbon 4)"
proof -
  have r: "run_command ''true'' ''GLOBAL'' True Missing example_run
     = Inr (example_data, ''ok'', Stored [example_data])"
    by (rule example_run_result)
  from carbon_identity [of "init_estimator 475 ''x86_64''" 1 0 0 "''true''" "''GLOBAL''" True
      Missing example_run example_data "''ok''" "Stored [example_data]"] r
  show ?thesis by blast
qed

subsection \<open>C2: the history keeps the last 100 entries\<close>

text \<open>
  C2: after any sequence of appends to the history store, the persisted log holds at most
  100 entries, and they are exactly the most recently appended ones, the oldest evicted
  first. Starting without a file, appending \<open>ds\<close> leaves the last 100 elements of \<open>ds\<close>;
  starting from a file that holds \<open>h\<close>, appending a non-empty \<open>ds\<close> leaves the last 100
  elements of \<open>h @ ds\<close>. No append fails.
\<close>

theorem history_keeps_last_100:
  "(\<exists>file'. save_all Missing ds = Inr file'
       \<and> entries file' = drop (length ds - 100) ds \<and> length (entries file') \<le> 100)
   \<and> (ds \<noteq> [] \<longrightarrow>
        (\<exists>kept. save_all (Stored h) ds = Inr (Stored kept)
           \<and> kept = drop (length (h @ ds) - 100) (h @ ds) \<and> length kept \<le> 100))"
proof -
  have len: "length (drop (length xs - 100) xs) \<le> 100" for xs :: "'a list"
    by simp
  have "\<exists>file'. save_all Missing ds = Inr file'
       \<and> entries file' = drop (length ds - 100) ds \<and> length (entries file') \<le> 100"
  proof (cases "ds = []")
    case True
    then show ?thesis by (simp add: entries_def)
  next
    case False
    then show ?thesis
      using len [of ds] by (simp add: save_all_missing entries_def slice_from_100)
  qed
  moreover have "\<exists>kept. save_all (Stored h) ds = Inr (Stored kept)
       \<and> kept = drop (length (h @ ds) - 100) (h @ ds) \<and> length kept \<le> 100"
    if "ds \<noteq> []"
    using that len [of "h @ ds"] by (simp only: save_all_stored slice_from_100 if_False) blast
  ultimately show ?thesis by blast
qed

theorem history_keeps_last_100_witness:
  "[100 :: nat] \<noteq> []
   \<and> (\<exists>kept. save_all (Stored [0 ..< 100]) [100] = Inr (Stored kept)
         \<and> kept = [1 ..< 100] @ [100] \<and> length kept \<le> 100)"
proof -
  have ne: "[100 :: nat] \<noteq> []" by simp
  have d: "drop (length ([0 ..< 100] @ [100 :: nat]) - 100) ([0 ..< 100] @ [100])
      = [1 ..< 100] @ [100]"
    by simp
  from history_keeps_last_100 [of "[100 :: nat]" "[0 ..< 100]"] ne
  have "\<exists>kept. save_all (Stored [0 ..< 100]) [100 :: nat] = Inr (Stored kept)
      \<and> kept = drop (length ([0 ..< 100] @ [100 :: nat]) - 100) ([0 ..< 100] @ [100])
      \<and> length kept \<le> 100"
    by blast
  with ne show ?thesis unfolding d by blast
qed

subsection \<open>C3: the power model does not clamp\<close>




subsection \<open>C4: no samples, no division\<close>

text \<open>
  C4: when no samples were collected, the reported cpu and memory averages are 0 and no
  division error is raised; the averaging never divides by zero. With the division of the
  source modelled as raising on a zero divisor: the average of no samples is 0, the
  average of any list of samples is a value and not an exception, and a measurement
  without samples returns metrics whose \<open>cpu_percent\<close> and \<open>memory_mb\<close> are 0.
\<close>

theorem zero_samples_average:
  "average [] = Inr 0
   \<and> (\<exists>v. average samples = Inr v)
   \<and> (\<exists>m. measure_execution self (Inr r) d [] [] = Inr (r, m)
         \<and> EnergyMetrics.cpu_percent m = 0 \<and> EnergyMetrics.memory_mb m = 0)"
  by (simp add: average_def truediv_def measure_execution_def calculate_energy_value)

subsection \<open>C5: the two entry points agree\<close>

text \<open>
  C5: the entry point driven by sampled averages (\<open>measure_execution\<close>) and the one that
  takes duration, cpu percentage and memory directly (\<open>estimate_from_metrics\<close>) give the
  same energy, carbon and SCI figures on the same inputs. A measurement whose buffers
  average to \<open>c\<close> percent and \<open>g\<close> GB returns exactly the metrics that
  \<open>estimate_from_metrics\<close> returns for the same duration, \<open>c\<close> percent and the same memory
  in the unit it takes, \<open>g * 1024\<close> MB; neither raises.
\<close>

theorem entry_points_agree:
  "\<exists>c g em. average cpu_samples = Inr c \<and> average memory_samples = Inr g
     \<and> estimate_from_metrics self d c (g * 1024) = Inr em
     \<and> measure_execution self (Inr r) d cpu_samples memory_samples = Inr (r, em)"
  by (simp add: average_def truediv_def measure_execution_def estimate_from_metrics_def
      calculate_energy_value)

subsection \<open>C6: the comparison of locations\<close>

text \<open>
  C6: in every run of the location comparator, the entry of the first (baseline) location
  reports a delta of exactly 0%, and the entries come in the order of the location list.

  The code misses the case of a baseline of 0. For a command that takes a hundredth of a
  second, the carbon recorded for the first location (Colombia, 165 g/kWh) is
  \<open>round(0.01 * 25 / 3600000 * 165, 4) = 0.0\<close>, and the delta of the first entry,
  \<open>(0.0 - 0.0) / 0.0 * 100\<close>, raises \<open>ZeroDivisionError\<close>: nothing is reported.
\<close>

theorem compare_quick_command_raises:
  "compare_locations ''true'' Missing quick_run = Inl ZeroDivisionError"
  by (simp add: compare_locations_def compare_over_def locations_def run_command_def
      quick_run_def intensity_for_def Let_def)
     (simp add: float_eval truediv_def)

subsection \<open>C7: a failing workload is still measured\<close>

text \<open>
  C7, as stated: when the workload fails, a Measurement is still computed and recorded,
  with \<open>success = false\<close> and the captured error output, and with figures from the
  observed duration.

  The record does not hold the error output: two runs of \<open>make\<close> that fail after two
  seconds and differ only in what was captured from standard error, \<open>boom\<close> and \<open>bang\<close>,
  return the same record and leave the same history file; the captured text only reaches
  the printed report. And the record is not always recorded: with saving turned off the
  history file is left as it was, and a history file that cannot be read makes the run
  raise the error of loading it.
\<close>

theorem error_output_not_recorded:
  "run_command ''make'' ''CO'' True Missing boom_run
     = Inr (failed_data, ''boom'', Stored [failed_data])
   \<and> run_command ''make'' ''CO'' True Missing bang_run
     = Inr (failed_data, ''bang'', Stored [failed_data])
   \<and> ''boom'' \<noteq> ''bang''
   \<and> run_command ''make'' ''CO'' False Missing boom_run = Inr (failed_data, ''boom'', Missing)
   \<and> run_command ''make'' ''CO'' True Corrupt boom_run = Inl JSONDecodeError"
proof -
  have "run_command ''make'' ''CO'' True Missing boom_run
     = Inr (failed_data, ''boom'', Stored [failed_data])"
    by (simp add: run_command_def boom_run_def failed_data_def intensity_for_def
        save_to_history_def slice_from_def Let_def)
       (simp add: float_eval)
  moreover have "run_command ''make'' ''CO'' True Missing bang_run
     = Inr (failed_data, ''bang'', Stored [failed_data])"
    by (simp add: run_command_def bang_run_def failed_data_def intensity_for_def
        save_to_history_def slice_from_def Let_def)
       (simp add: float_eval)
  moreover have "run_command ''make'' ''CO'' False Missing boom_run
     = Inr (failed_data, ''boom'', Missing)"
    by (simp add: run_command_def boom_run_def failed_data_def intensity_for_def Let_def)
       (simp add: float_eval)
  moreover have "run_command ''make'' ''CO'' True Corrupt boom_run = Inl JSONDecodeError"
    by (rule run_command_corrupt)
  ultimately show ?thesis by simp
qed

text \<open>
  C7, amended: when the workload fails (it returns a non-zero code, or running it raises),
  the measurement is not aborted: a Measurement is still computed, with
  \<open>success = false\<close> and with energy and carbon figures computed from the duration
  actually observed (25 W times the duration), and the captured error output (standard
  error, or the text of the exception) is handed to the printed report; it is not part of
  the Measurement, which is made of the time stamp, the command, the location, the flag
  and the figures. The Measurement is recorded, as the last entry of the history after a
  suffix of the old entries, when saving is on and the history file can be read; with
  saving off the history file is left as it is, and saving to a history file that cannot
  be read raises.
\<close>

theorem failed_run_still_measured:
  "(execution obs = Completed rc so txt \<and> rc \<noteq> 0) \<or> execution obs = Raised txt \<Longrightarrow>
   ((sv \<longrightarrow> file \<noteq> Corrupt) \<longrightarrow>
     (\<exists>data file'. run_command cmd loc sv file obs = Inr (data, txt, file')
       \<and> data = \<lparr>timestamp = now obs, command = cmd, location = loc, success = False,
             duration_seconds = py_round (elapsed obs) 2,
             metrics =
               \<lparr>cpu_percent = 45, memory_mb = 512,
                energy_joules = py_round (fl (elapsed obs * 25)) 2,
                energy_kwh = py_round (fl (fl (elapsed obs * 25) / 3600000)) 6,
                carbon_grams =
                  py_round (fl (fl (fl (elapsed obs * 25) / 3600000) * intensity_for loc)) 4,
                carbon_intensity = intensity_for loc\<rparr>,
             equivalents =
               \<lparr>smartphone_charges =
                  py_round
                    (fl (fl (fl (fl (fl (elapsed obs * 25) / 3600000) * intensity_for loc) * 1000)
                         / fl (62 / 1000))) 1,
                km_driven =
                  py_round
                    (fl (fl (fl (fl (elapsed obs * 25) / 3600000) * intensity_for loc) / 192))
                    3\<rparr>\<rparr>
       \<and> (sv \<longrightarrow> (\<exists>kept. file' = Stored (kept @ [data]) \<and> suffix kept (entries file)))
       \<and> (\<not> sv \<longrightarrow> file' = file)))
   \<and> run_command cmd loc True Corrupt obs = Inl JSONDecodeError"
proof -
  assume failed: "(execution obs = Completed rc so txt \<and> rc \<noteq> 0) \<or> execution obs = Raised txt"
  have main: "\<exists>data file'. run_command cmd loc sv file obs = Inr (data, txt, file')
       \<and> data = \<lparr>timestamp = now obs, command = cmd, location = loc, success = False,
             duration_seconds = py_round (elapsed obs) 2,
             metrics =
               \<lparr>cpu_percent = 45, memory_mb = 512,
                energy_joules = py_round (fl (elapsed obs * 25)) 2,
                energy_kwh = py_round (fl (fl (elapsed obs * 25) / 3600000)) 6,
                carbon_grams =
                  py_round (fl (fl (fl (elapsed obs * 25) / 3600000) * intensity_for loc)) 4,
                carbon_intensity = intensity_for loc\<rparr>,
             equivalents =
               \<lparr>smartphone_charges =
                  py_round
                    (fl (fl (fl (fl (fl (elapsed obs * 25) / 3600000) * intensity_for loc) * 1000)
                         / fl (62 / 1000))) 1,
                km_driven =
                  py_round
                    (fl (fl (fl (fl (elapsed obs * 25) / 3600000) * intensity_for loc) / 192))
                    3\<rparr>\<rparr>
       \<and> (sv \<longrightarrow> (\<exists>kept. file' = Stored (kept @ [data]) \<and> suffix kept (entries file)))
       \<and> (\<not> sv \<longrightarrow> file' = file)"
    if ok: "sv \<longrightarrow> file \<noteq> Corrupt"
  proof -
    obtain data out file' where r: "run_command cmd loc sv file obs = Inr (data, out, file')"
      using run_command_returns [OF ok] by blast
    have o: "out = txt"
      using run_command_output [OF r] failed by auto
    have s: "(case execution obs of Completed rc so se \<Rightarrow> rc = 0 | Raised msg \<Rightarrow> False) = False"
      using failed by auto
    note d = run_command_data [OF r, unfolded s]
    have f: "file' = (if sv then Stored (slice_from (- 100) (entries file @ [data])) else file)"
      by (rule run_command_file [OF r])
    have k: "slice_from (- 100) (entries file @ [data])
        = drop (length (entries file) - 99) (entries file) @ [data]"
      by (simp add: slice_from_100)
    have "sv \<longrightarrow> (\<exists>kept. file' = Stored (kept @ [data]) \<and> suffix kept (entries file))"
      using f k suffix_drop [of "length (entries file) - 99" "entries file"] by auto
    moreover have "\<not> sv \<longrightarrow> file' = file"
      using f by simp
    ultimately show ?thesis
      using r o d by blast
  qed
  show ?thesis
    using main run_command_corrupt [of cmd loc obs] by blast
qed

theorem failed_run_still_measured_witness:
  "execution failing_run = Raised ''fork failed''
   \<and> (Missing :: result_data history_file) \<noteq> Corrupt
   \<and> run_command ''make'' ''DE'' True Missing failing_run
       = Inr (unstarted_data, ''fork failed'', Stored [unstarted_data])
   \<and> run_command ''make'' ''DE'' True Corrupt failing_run = Inl JSONDecodeError"
proof -
  have h: "(execution failing_run = Completed 1 '''' ''fork failed'' \<and> (1 :: int) \<noteq> 0)
      \<or> execution failing_run = Raised ''fork failed''"
    by (simp add: failing_run_def)
  have k: "True \<longrightarrow> (Missing :: result_data history_file) \<noteq> Corrupt"
    by simp
  from failed_run_still_measured [OF h, of True Missing "''make''" "''DE''"] k
  obtain data file' kept where
    r: "run_command ''make'' ''DE'' True Missing failing_run = Inr (data, ''fork failed'', file')"
    and d: "data = unstarted_data"
    and f: "file' = Stored (kept @ [data])" "suffix kept (entries (Missing :: result_data history_file))"
    and c: "run_command ''make'' ''DE'' True Corrupt failing_run = Inl JSONDecodeError"
    unfolding record_of_failing_run by blast
  from f have "file' = Stored [data]"
    by (simp add: entries_def)
  with r d c show ?thesis
    by (simp add: failing_run_def)
qed

subsection \<open>C8: more load, no less power\<close>

text \<open>
  C8: with the memory fixed, the power does not decrease as the cpu utilisation goes from
  0% to 100%: for \<open>0 \<le> u1 \<le> u2 \<le> 100\<close> and any memory, the power at \<open>u1\<close> is at most
  the power at \<open>u2\<close>, for an estimator on any machine.
\<close>

theorem power_monotone_in_cpu:
  "0 \<le> u1 \<Longrightarrow> u1 \<le> u2 \<Longrightarrow> u2 \<le> 100 \<Longrightarrow>
   \<exists>p1 p2. total_power_watts (init_estimator ci machine) u1 m = Inr p1
     \<and> total_power_watts (init_estimator ci machine) u2 m = Inr p2
     \<and> p1 \<le> p2"
  using tdp_init [of ci machine]
  by (auto simp: total_power_watts_value CPU_POWER_FACTOR_def CPU_BASELINE_def)

theorem power_monotone_in_cpu_witness:
  "(0 :: real) \<le> 20 \<and> (20 :: real) \<le> 70 \<and> (70 :: real) \<le> 100
   \<and> (\<exists>p1 p2. total_power_watts (init_estimator 475 ''arm64'') 20 2 = Inr p1
         \<and> total_power_watts (init_estimator 475 ''arm64'') 70 2 = Inr p2
         \<and> p1 \<le> p2)"
  using power_monotone_in_cpu [of 20 70 475 "''arm64''" 2]
  by simp

subsection \<open>C9: an unknown location gets the default intensity\<close>

text \<open>
  C9, as stated: for a location code that the built-in table (\<open>DE\<close>, \<open>CO\<close>) does not
  know, the measurement run uses a default intensity and does not fail.

  A run under an unknown location can fail: asked to save to a history file that cannot
  be read, the run under \<open>US-CA\<close> raises the error of loading it.
\<close>

theorem unknown_location_run_can_fail:
  "''US-CA'' \<noteq> ''DE'' \<and> ''US-CA'' \<noteq> ''CO''
   \<and> run_command ''true'' ''US-CA'' True Corrupt example_run = Inl JSONDecodeError"
  using run_command_corrupt [of "''true''" "''US-CA''" example_run] by simp

text \<open>
  C9, amended: for a location code that the built-in table does not know, resolving the
  intensity never raises and gives the default value 389, and the measurement run uses
  it: the carbon figure and the equivalents of the returned record are computed with 389,
  which is also recorded as the intensity. The run does not fail, unless it is asked to
  save to a history file that cannot be read, which raises under every location.
\<close>

theorem unknown_location_default:
  "loc \<noteq> ''DE'' \<Longrightarrow> loc \<noteq> ''CO'' \<Longrightarrow>
   intensity_for loc = 389
   \<and> ((sv \<longrightarrow> file \<noteq> Corrupt) \<longrightarrow>
        (\<exists>data out file'. run_command cmd loc sv file obs = Inr (data, out, file')
           \<and> data = \<lparr>timestamp = now obs, command = cmd, location = loc,
                 success = (case execution obs of
                              Completed rc so se \<Rightarrow> rc = 0 | Raised msg \<Rightarrow> False),
                 duration_seconds = py_round (elapsed obs) 2,
                 metrics =
                   \<lparr>cpu_percent = 45, memory_mb = 512,
                    energy_joules = py_round (fl (elapsed obs * 25)) 2,
                    energy_kwh = py_round (fl (fl (elapsed obs * 25) / 3600000)) 6,
                    carbon_grams = py_round (fl (fl (fl (elapsed obs * 25) / 3600000) * 389)) 4,
                    carbon_intensity = 389\<rparr>,
                 equivalents =
                   \<lparr>smartphone_charges =
                      py_round
                        (fl (fl (fl (fl (fl (elapsed obs * 25) / 3600000) * 389) * 1000)
                             / fl (62 / 1000))) 1,
                    km_driven =
                      py_round (fl (fl (fl (fl (elapsed obs * 25) / 3600000) * 389) / 192))
                        3\<rparr>\<rparr>
           \<and> file' = (if sv then Stored (slice_from (- 100) (entries file @ [data])) else file)))
   \<and> run_command cmd loc True Corrupt obs = Inl JSONDecodeError"
proof -
  assume a: "loc \<noteq> ''DE''" "loc \<noteq> ''CO''"
  have i: "intensity_for loc = 389" using a by (simp add: intensity_for_def)
  have main: "\<exists>data out file'. run_command cmd loc sv file obs = Inr (data, out, file')
           \<and> data = \<lparr>timestamp = now obs, command = cmd, location = loc,
                 success = (case execution obs of
                              Completed rc so se \<Rightarrow> rc = 0 | Raised msg \<Rightarrow> False),
                 duration_seconds = py_round (elapsed obs) 2,
                 metrics =
                   \<lparr>cpu_percent = 45, memory_mb = 512,
                    energy_joules = py_round (fl (elapsed obs * 25)) 2,
                    energy_kwh = py_round (fl (fl (elapsed obs * 25) / 3600000)) 6,
                    carbon_grams = py_round (fl (fl (fl (elapsed obs * 25) / 3600000) * 389)) 4,
                    carbon_intensity = 389\<rparr>,
                 equivalents =
                   \<lparr>smartphone_charges =
                      py_round
                        (fl (fl (fl (fl (fl (elapsed obs * 25) / 3600000) * 389) * 1000)
                             / fl (62 / 1000))) 1,
                    km_driven =
                      py_round (fl (fl (fl (fl (elapsed obs * 25) / 3600000) * 389) / 192))
                        3\<rparr>\<rparr>
           \<and> file' = (if sv then Stored (slice_from (- 100) (entries file @ [data])) else file)"
    if ok: "sv \<longrightarrow> file \<noteq> Corrupt"
  proof -
    obtain data out file' where r: "run_command cmd loc sv file obs = Inr (data, out, file')"
      using run_command_returns [OF ok] by blast
    note d = run_command_data [OF r, unfolded i]
    note f = run_command_file [OF r]
    from r d f show ?thesis by blast
  qed
  show ?thesis
    using i main run_command_corrupt [of cmd loc obs] by blast
qed

theorem unknown_location_default_witness:
  "''GLOBAL'' \<noteq> ''DE'' \<and> ''GLOBAL'' \<noteq> ''CO''
   \<and> (Missing :: result_data history_file) \<noteq> Corrupt
   \<and> intensity_for ''GLOBAL'' = 389
   \<and> run_command ''true'' ''GLOBAL'' True Missing example_run
       = Inr (example_data, ''ok'', Stored [example_data])
   \<and> run_command ''true'' ''GLOBAL'' True Corrupt example_run = Inl JSONDecodeError"
proof -
  have a: "''GLOBAL'' \<noteq> ''DE''" "''GLOBAL'' \<noteq> ''CO''" by simp_all
  have k: "True \<longrightarrow> (Missing :: result_data history_file) \<noteq> Corrupt"
    by simp
  have s: "(case execution example_run of Completed rc so se \<Rightarrow> rc = 0 | Raised msg \<Rightarrow> False)
      = True"
    by (simp add: example_run_def)
  from unknown_location_default [OF a, of True Missing "''true''" example_run] k
  obtain data out file' where
    i: "intensity_for ''GLOBAL'' = 389"
    and r: "run_command ''true'' ''GLOBAL'' True Missing example_run = Inr (data, out, file')"
    and d: "data = example_data"
    and f: "file' = Stored (slice_from (- 100) (entries (Missing :: result_data history_file) @ [data]))"
    and c: "run_command ''true'' ''GLOBAL'' True Corrupt example_run = Inl JSONDecodeError"
    unfolding s record_of_example_run by auto
  have o: "out = ''ok''"
    using run_command_output [OF r] by (simp add: example_run_def)
  from f have "file' = Stored [data]"
    by (simp add: entries_def slice_from_def)
  with i r d c o a show ?thesis by simp
qed

subsection \<open>C10: an append leaves the retained entries alone\<close>

text \<open>
  C10: appending to the history leaves every retained earlier entry unchanged and in its
  place: the new log is a suffix of the old log followed by the new entry, so entries are
  only ever lost from the front. The suffix is the last 99 entries of the old log (all of
  it when it has fewer).
\<close>

theorem append_preserves_retained:
  "file \<noteq> Corrupt \<Longrightarrow>
   \<exists>kept. save_to_history file d = Inr (Stored (kept @ [d]))
     \<and> suffix kept (entries file)
     \<and> kept = drop (length (entries file) - 99) (entries file)"
proof -
  assume ok: "file \<noteq> Corrupt"
  let ?h = "entries file"
  have "slice_from (- 100) (?h @ [d]) = drop (length ?h - 99) ?h @ [d]"
    by (simp add: slice_from_100)
  moreover have "suffix (drop (length ?h - 99) ?h) ?h"
    by (rule suffix_drop)
  ultimately show ?thesis
    using save_to_history_ok [OF ok, of d] by simp
qed

theorem append_preserves_retained_witness:
  "(Stored [1, 2, 3 :: nat]) \<noteq> Corrupt
   \<and> save_to_history (Stored [1, 2, 3 :: nat]) 4 = Inr (Stored ([1, 2, 3] @ [4]))
   \<and> suffix [1, 2, 3 :: nat] (entries (Stored [1, 2, 3]))"
  using append_preserves_retained [of "Stored [1, 2, 3 :: nat]" 4]
  by (simp add: entries_def)

end
